theory Spec2Isabelle
  imports Complex_Main
begin

section \<open>Data model (shared/schema.ts)\<close>

text \<open>
  Monetary columns are \<open>decimal(12, 2)\<close>: exact decimals with two fractional digits.
  They are modelled as integers counting cents, so \<open>parseFloat\<close> of a stored value, the
  comparison of two such values and the SQL expressions \<open>balance + amount\<close> and
  \<open>balance - price\<close> are exact integer operations. The twelve digit precision bound of
  the column is not modelled. Timestamps with a database default (\<open>createdAt\<close>,
  \<open>updatedAt\<close>), the text of a notification and the metadata of an admin log entry are
  left out; every other column of the tables the handlers below write is a field.
  A row's primary key is the key of the table's map.
\<close>

definition bookingStatusEnum :: "string list" where
  "bookingStatusEnum = [''pending'', ''confirmed'', ''completed'', ''cancelled'']"

definition depositStatusEnum :: "string list" where
  "depositStatusEnum = [''pending'', ''approved'', ''rejected'']"

definition messageTypeEnum :: "string list" where
  "messageTypeEnum = [''booking'', ''campaign'']"

record user =
  u_email :: "string option"
  u_firstName :: "string option"
  u_lastName :: "string option"
  u_profileImageUrl :: "string option"
  u_phone :: "string option"
  u_country :: "string option"
  u_balanceUsd :: int
  u_role :: string
  u_status :: string

record celebrity =
  c_name :: string
  c_priceUsd :: int
  c_category :: string
  c_imageUrl :: "string option"
  c_bio :: "string option"
  c_status :: string

record booking =
  b_userId :: string
  b_celebrityId :: int
  b_priceUsd :: int
  b_status :: string
  b_eventDate :: "int option"
  b_eventDetails :: "string option"

record campaign =
  cp_userId :: string
  cp_celebrityId :: int
  cp_customPriceUsd :: "int option"
  cp_campaignType :: string
  cp_description :: "string option"
  cp_status :: string

record message =
  m_threadId :: string
  m_threadType :: string
  m_referenceId :: int
  m_sender :: string
  m_senderUserId :: "string option"
  m_text :: string

record deposit =
  d_userId :: string
  d_amountUsd :: int
  d_coin :: string
  d_cryptoAmountExpected :: int
  d_walletAddress :: "string option"
  d_txHash :: "string option"
  d_status :: string

record notification =
  n_userId :: string
  n_title :: string
  n_type :: string
  n_isRead :: bool

record adminLog =
  l_adminId :: string
  l_action :: string

section \<open>The push channel (routes.ts: \<open>wsClients\<close>, \<open>wsAuthTokens\<close>, \<open>wss\<close>)\<close>

text \<open>
  A WebSocket object is an entry of the store \<open>sockets\<close>, addressed by a number, so that
  the map \<open>wsClients\<close> and the set \<open>wss.clients\<close> can refer to the same object. Its
  field \<open>sock_userId\<close> is the variable \<open>userId\<close> in the closure of the connection handler;
  \<open>sent\<close> collects, in order, what the server has sent on it.
\<close>

datatype ready_state = OPEN | CLOSED

text \<open>
  What the server sends: the two answers to an \<open>auth\<close> message and the pushed events,
  each with the fields of its payload. \<open>new_message\<close> carries the thread, the stored
  message (its id and row) and whether \<open>isFromUser\<close> is set.
\<close>

datatype ws_event =
    auth_success
  | auth_error string
  | notification_event string
  | booking_update int string
  | deposit_update int string
  | campaign_update int
  | new_message string "int \<times> message" bool

record socket =
  sock_userId :: "string option"
  readyState :: ready_state
  sent :: "ws_event list"

section \<open>Server state\<close>

record server =
  users :: "string \<rightharpoonup> user"
  celebrities :: "int \<rightharpoonup> celebrity"
  bookings :: "int \<rightharpoonup> booking"
  campaigns :: "int \<rightharpoonup> campaign"
  messages :: "int \<rightharpoonup> message"
  deposits :: "int \<rightharpoonup> deposit"
  notifications :: "notification list"
  adminLogs :: "adminLog list"
  bookingSeq :: int
  messageSeq :: int
  sockets :: "nat \<rightharpoonup> socket"
  socketSeq :: nat
  wss_clients :: "nat list"
  wsClients :: "string \<rightharpoonup> nat"
  wsAuthTokens :: "string \<rightharpoonup> string \<times> int"

section \<open>Exceptions and responses\<close>

text \<open>
  An exception is identified with its \<open>message\<close>: the literal of a \<open>throw new Error\<close>
  of the code, or the database's text for a rejected statement. A storage call returns
  the exception or its value, and the state it leaves.
\<close>

datatype pg_violation = InvalidEnumValue | ValueTooLong | ForeignKeyViolation

datatype msg = Msg string | PgMsg pg_violation

datatype 'a response = Json nat 'a | ErrorJson nat msg

type_synonym 'a io = "server \<Rightarrow> (msg + 'a) \<times> server"

text \<open>
  \<open>db.transaction\<close>: the writes of the body are kept when it returns and discarded when
  it throws.
\<close>

definition transaction :: "'a io \<Rightarrow> 'a io" where
  "transaction body s =
     (case body s of
        (Inl e, tx) \<Rightarrow> (Inl e, s)
      | (Inr r, tx) \<Rightarrow> (Inr r, tx))"

section \<open>Storage (server/storage.ts)\<close>

definition getUser :: "string \<Rightarrow> server \<Rightarrow> user option" where
  "getUser id' s = users s id'"

definition getCelebrity :: "int \<Rightarrow> server \<Rightarrow> celebrity option" where
  "getCelebrity id' s = celebrities s id'"

definition getBooking :: "int \<Rightarrow> server \<Rightarrow> booking option" where
  "getBooking id' s = bookings s id'"

definition getDeposit :: "int \<Rightarrow> server \<Rightarrow> deposit option" where
  "getDeposit id' s = deposits s id'"

definition getCampaign :: "int \<Rightarrow> server \<Rightarrow> campaign option" where
  "getCampaign id' s = campaigns s id'"

text \<open>
  \<open>Partial<User>\<close>: a field is \<open>Some v\<close> when the object has the key. The key \<open>id\<close> is
  not modelled.
\<close>

record user_patch =
  p_email :: "string option option"
  p_firstName :: "string option option"
  p_lastName :: "string option option"
  p_profileImageUrl :: "string option option"
  p_phone :: "string option option"
  p_country :: "string option option"
  p_balanceUsd :: "int option"
  p_role :: "string option"
  p_status :: "string option"

definition set_field :: "'a option \<Rightarrow> 'a \<Rightarrow> 'a" where
  "set_field new old = (case new of None \<Rightarrow> old | Some v \<Rightarrow> v)"

definition apply_patch :: "user_patch \<Rightarrow> user \<Rightarrow> user" where
  "apply_patch data u =
     u\<lparr> u_email := set_field (p_email data) (u_email u),
        u_firstName := set_field (p_firstName data) (u_firstName u),
        u_lastName := set_field (p_lastName data) (u_lastName u),
        u_profileImageUrl := set_field (p_profileImageUrl data) (u_profileImageUrl u),
        u_phone := set_field (p_phone data) (u_phone u),
        u_country := set_field (p_country data) (u_country u),
        u_balanceUsd := set_field (p_balanceUsd data) (u_balanceUsd u),
        u_role := set_field (p_role data) (u_role u),
        u_status := set_field (p_status data) (u_status u) \<rparr>"

definition userRoleEnum :: "string list" where
  "userRoleEnum = [''user'', ''admin'']"

definition updateUser :: "string \<Rightarrow> user_patch \<Rightarrow> user option io" where
  "updateUser id' data s =
     (if (case p_role data of None \<Rightarrow> False | Some r \<Rightarrow> r \<notin> set userRoleEnum)
      then (Inl (PgMsg InvalidEnumValue), s)
      else (case users s id' of
              None \<Rightarrow> (Inr None, s)
            | Some u \<Rightarrow>
                (Inr (Some (apply_patch data u)),
                 s\<lparr>users := (users s)(id' \<mapsto> apply_patch data u)\<rparr>)))"

definition updateUserBalance :: "string \<Rightarrow> int \<Rightarrow> server \<Rightarrow> user option \<times> server" where
  "updateUserBalance id' amount s =
     (case users s id' of
        None \<Rightarrow> (None, s)
      | Some u \<Rightarrow>
          (let user = u\<lparr>u_balanceUsd := u_balanceUsd u + amount\<rparr>
           in (Some user, s\<lparr>users := (users s)(id' \<mapsto> user)\<rparr>)))"

text \<open>
  \<open>tx.insert(bookings).values(data)\<close>: the row must name an existing user and an
  existing celebrity and carry a status of the enum; its id is the next value of the
  identity sequence.
\<close>

definition insertBooking :: "booking \<Rightarrow> (int \<times> booking) io" where
  "insertBooking data s =
     (if b_status data \<notin> set bookingStatusEnum then (Inl (PgMsg InvalidEnumValue), s)
      else if users s (b_userId data) = None \<or> celebrities s (b_celebrityId data) = None
      then (Inl (PgMsg ForeignKeyViolation), s)
      else (Inr (bookingSeq s, data),
            s\<lparr>bookings := (bookings s)(bookingSeq s \<mapsto> data), bookingSeq := bookingSeq s + 1\<rparr>))"

definition createBookingWithBalanceDeduction ::
    "string \<Rightarrow> booking \<Rightarrow> ((int \<times> booking) \<times> user) io" where
  "createBookingWithBalanceDeduction userId data =
     (let priceNum = b_priceUsd data in
      transaction (\<lambda>tx.
        case users tx userId of
          None \<Rightarrow> (Inl (Msg ''User not found''), tx)
        | Some user \<Rightarrow>
            (let balanceNum = u_balanceUsd user in
             if balanceNum < priceNum then (Inl (Msg ''Insufficient wallet balance''), tx)
             else
               (let updatedUser = user\<lparr>u_balanceUsd := u_balanceUsd user - priceNum\<rparr>;
                    tx1 = tx\<lparr>users := (users tx)(userId \<mapsto> updatedUser)\<rparr>
                in case insertBooking data tx1 of
                     (Inl e, tx2) \<Rightarrow> (Inl e, tx2)
                   | (Inr booking, tx2) \<Rightarrow> (Inr (booking, updatedUser), tx2)))))"

definition updateBookingStatus :: "int \<Rightarrow> string \<Rightarrow> booking option io" where
  "updateBookingStatus id' status s =
     (if status \<notin> set bookingStatusEnum then (Inl (PgMsg InvalidEnumValue), s)
      else (case bookings s id' of
              None \<Rightarrow> (Inr None, s)
            | Some b \<Rightarrow>
                (Inr (Some (b\<lparr>b_status := status\<rparr>)),
                 s\<lparr>bookings := (bookings s)(id' \<mapsto> b\<lparr>b_status := status\<rparr>)\<rparr>)))"

text \<open>
  \<open>updateDepositStatus\<close> writes the status and, when \<open>txHash\<close> is a non-empty string,
  the hash. The column \<open>tx_hash\<close> is \<open>varchar(500)\<close>: the database rejects a longer
  value unless the excess is spaces only, which it cuts off.
\<close>

definition varchar :: "nat \<Rightarrow> string \<Rightarrow> msg + string" where
  "varchar n v =
     (if length v \<le> n then Inr v
      else if list_all (\<lambda>c. c = CHR '' '') (drop n v) then Inr (take n v)
      else Inl (PgMsg ValueTooLong))"

definition updateDepositStatus :: "int \<Rightarrow> string \<Rightarrow> string option \<Rightarrow> deposit option io" where
  "updateDepositStatus id' status txHash s =
     (if status \<notin> set depositStatusEnum then (Inl (PgMsg InvalidEnumValue), s)
      else
        (case (case txHash of
                 None \<Rightarrow> Inr None
               | Some h \<Rightarrow> if h = [] then Inr None else map_sum id Some (varchar 500 h)) of
           Inl e \<Rightarrow> (Inl e, s)
         | Inr hash \<Rightarrow>
             (case deposits s id' of
                None \<Rightarrow> (Inr None, s)
              | Some d \<Rightarrow>
                  (let deposit =
                         d\<lparr>d_status := status,
                           d_txHash := (case hash of None \<Rightarrow> d_txHash d | Some h \<Rightarrow> Some h)\<rparr>
                   in (Inr (Some deposit), s\<lparr>deposits := (deposits s)(id' \<mapsto> deposit)\<rparr>)))))"

text \<open>A notification and an admin log entry name an existing user.\<close>

definition createNotification :: "notification \<Rightarrow> unit io" where
  "createNotification data s =
     (if users s (n_userId data) = None then (Inl (PgMsg ForeignKeyViolation), s)
      else (Inr (), s\<lparr>notifications := notifications s @ [data]\<rparr>))"

definition createAdminLog :: "adminLog \<Rightarrow> unit io" where
  "createAdminLog data s =
     (if users s (l_adminId data) = None then (Inl (PgMsg ForeignKeyViolation), s)
      else (Inr (), s\<lparr>adminLogs := adminLogs s @ [data]\<rparr>))"

section \<open>Targeted push (routes.ts: \<open>broadcastToUser\<close>)\<close>

definition ws_send :: "nat \<Rightarrow> ws_event \<Rightarrow> server \<Rightarrow> server" where
  "ws_send c data s =
     (case sockets s c of
        None \<Rightarrow> s
      | Some ws \<Rightarrow> s\<lparr>sockets := (sockets s)(c \<mapsto> ws\<lparr>sent := sent ws @ [data]\<rparr>)\<rparr>)"

definition is_open :: "nat \<Rightarrow> server \<Rightarrow> bool" where
  "is_open c s = (case sockets s c of None \<Rightarrow> False | Some ws \<Rightarrow> readyState ws = OPEN)"

definition broadcastToUser :: "string \<Rightarrow> ws_event \<Rightarrow> server \<Rightarrow> server" where
  "broadcastToUser uid data s =
     (case wsClients s uid of
        None \<Rightarrow> s
      | Some client \<Rightarrow> if is_open client s then ws_send client data s else s)"

section \<open>Request handlers (routes.ts)\<close>

text \<open>
  A handler takes the user of the session (\<open>req.user.claims.sub\<close>; a request without a
  session is answered 401 by \<open>isAuthenticated\<close> and reaches no handler), what it reads
  from the request and the state; it returns the response and the state it leaves. The
  \<open>catch\<close> of a handler answers with the exception's message and keeps every write made
  before the exception outside a transaction. Numbers of a request (\<open>parseInt\<close>,
  \<open>parseFloat\<close>) are taken as parsed: ids as integers, amounts as cents.
\<close>

definition isAdmin :: "string \<Rightarrow> server \<Rightarrow> bool" where
  "isAdmin sub s = (case getUser sub s of None \<Rightarrow> False | Some dbUser \<Rightarrow> u_role dbUser = ''admin'')"

definition forbidden :: "'a response" where
  "forbidden = ErrorJson 403 (Msg ''Forbidden - Admin access required'')"

record booking_body =
  rq_celebrityId :: int
  rq_eventDate :: "int option"
  rq_eventDetails :: "string option"

definition post_bookings_catch :: "msg \<Rightarrow> (int \<times> booking) response" where
  "post_bookings_catch e =
     (if e = Msg ''Insufficient wallet balance'' then ErrorJson 400 e
      else if e = Msg ''User not found'' then ErrorJson 404 e
      else ErrorJson 400 e)"

definition post_bookings ::
    "string \<Rightarrow> booking_body \<Rightarrow> server \<Rightarrow> (int \<times> booking) response \<times> server" where
  "post_bookings userId body s =
     (case getCelebrity (rq_celebrityId body) s of
        None \<Rightarrow> (ErrorJson 404 (Msg ''Celebrity not found''), s)
      | Some celebrity \<Rightarrow>
          (case createBookingWithBalanceDeduction userId
                  \<lparr> b_userId = userId, b_celebrityId = rq_celebrityId body,
                    b_priceUsd = c_priceUsd celebrity, b_status = ''pending'',
                    b_eventDate = rq_eventDate body, b_eventDetails = rq_eventDetails body \<rparr> s of
             (Inl e, s1) \<Rightarrow> (post_bookings_catch e, s1)
           | (Inr (booking, user), s1) \<Rightarrow>
               (case createNotification
                       \<lparr> n_userId = userId, n_title = ''Booking Submitted'',
                         n_type = ''booking'', n_isRead = False \<rparr> s1 of
                  (Inl e, s2) \<Rightarrow> (post_bookings_catch e, s2)
                | (Inr u, s2) \<Rightarrow>
                    (Json 201 booking,
                     broadcastToUser userId (notification_event ''New booking created'') s2))))"

definition patch_catch :: "msg \<Rightarrow> 'a response" where
  "patch_catch e = ErrorJson 400 e"

definition patch_booking_status ::
    "string \<Rightarrow> int \<Rightarrow> string \<Rightarrow> server \<Rightarrow> booking option response \<times> server" where
  "patch_booking_status sub id' status s =
     (if \<not> isAdmin sub s then (forbidden, s)
      else
        (case getBooking id' s of
           None \<Rightarrow> (ErrorJson 404 (Msg ''Booking not found''), s)
         | Some booking \<Rightarrow>
             (case updateBookingStatus id' status s of
                (Inl e, s1) \<Rightarrow> (patch_catch e, s1)
              | (Inr updatedBooking, s1) \<Rightarrow>
                  (let s2 = (if status = ''cancelled'' \<and> b_status booking = ''pending''
                             then snd (updateUserBalance (b_userId booking) (b_priceUsd booking) s1)
                             else s1)
                   in case createNotification
                             \<lparr> n_userId = b_userId booking, n_title = ''Booking Update'',
                               n_type = ''booking'', n_isRead = False \<rparr> s2 of
                        (Inl e, s3) \<Rightarrow> (patch_catch e, s3)
                      | (Inr u, s3) \<Rightarrow>
                          (case createAdminLog
                                  \<lparr> l_adminId = sub,
                                    l_action = ''Updated booking status to '' @ status \<rparr> s3 of
                             (Inl e, s4) \<Rightarrow> (patch_catch e, s4)
                           | (Inr u, s4) \<Rightarrow>
                               (Json 200 updatedBooking,
                                broadcastToUser (b_userId booking) (booking_update id' status) s4))))))"

definition patch_deposit_status ::
    "string \<Rightarrow> int \<Rightarrow> string \<Rightarrow> string option \<Rightarrow> server \<Rightarrow> deposit option response \<times> server" where
  "patch_deposit_status sub id' status txHash s =
     (if \<not> isAdmin sub s then (forbidden, s)
      else
        (case getDeposit id' s of
           None \<Rightarrow> (ErrorJson 404 (Msg ''Deposit not found''), s)
         | Some deposit \<Rightarrow>
             (let s1 = (if status = ''approved'' \<and> d_status deposit = ''pending''
                        then snd (updateUserBalance (d_userId deposit) (d_amountUsd deposit) s)
                        else s)
              in case updateDepositStatus id' status txHash s1 of
                   (Inl e, s2) \<Rightarrow> (patch_catch e, s2)
                 | (Inr updatedDeposit, s2) \<Rightarrow>
                     (case createNotification
                             \<lparr> n_userId = d_userId deposit, n_title = ''Deposit Update'',
                               n_type = ''deposit'', n_isRead = False \<rparr> s2 of
                        (Inl e, s3) \<Rightarrow> (patch_catch e, s3)
                      | (Inr u, s3) \<Rightarrow>
                          (case createAdminLog
                                  \<lparr> l_adminId = sub,
                                    l_action = ''Updated deposit status to '' @ status \<rparr> s3 of
                             (Inl e, s4) \<Rightarrow> (patch_catch e, s4)
                           | (Inr u, s4) \<Rightarrow>
                               (Json 200 updatedDeposit,
                                broadcastToUser (d_userId deposit) (deposit_update id' status) s4))))))"

definition patch_admin_user ::
    "string \<Rightarrow> string \<Rightarrow> user_patch \<Rightarrow> server \<Rightarrow> user option response \<times> server" where
  "patch_admin_user sub id' body s =
     (if \<not> isAdmin sub s then (forbidden, s)
      else
        (case updateUser id' body s of
           (Inl e, s1) \<Rightarrow> (patch_catch e, s1)
         | (Inr user, s1) \<Rightarrow>
             (case createAdminLog \<lparr> l_adminId = sub, l_action = ''Updated user'' \<rparr> s1 of
                (Inl e, s2) \<Rightarrow> (patch_catch e, s2)
              | (Inr u, s2) \<Rightarrow> (Json 200 user, s2))))"

definition patch_admin_balance ::
    "string \<Rightarrow> string \<Rightarrow> int \<Rightarrow> server \<Rightarrow> user option response \<times> server" where
  "patch_admin_balance sub id' amount s =
     (if \<not> isAdmin sub s then (forbidden, s)
      else
        (case updateUserBalance id' amount s of
           (user, s1) \<Rightarrow>
             (case createAdminLog \<lparr> l_adminId = sub, l_action = ''Adjusted user balance'' \<rparr> s1 of
                (Inl e, s2) \<Rightarrow> (patch_catch e, s2)
              | (Inr u, s2) \<Rightarrow>
                  (case createNotification
                          \<lparr> n_userId = id', n_title = ''Balance Adjustment'',
                            n_type = ''wallet'', n_isRead = False \<rparr> s2 of
                     (Inl e, s3) \<Rightarrow> (patch_catch e, s3)
                   | (Inr u, s3) \<Rightarrow> (Json 200 user, s3)))))"

text \<open>\<open>PATCH /api/profile\<close> passes on the two fields \<open>phone\<close> and \<open>country\<close> only.\<close>

definition patch_profile ::
    "string \<Rightarrow> string option option \<Rightarrow> string option option \<Rightarrow> server \<Rightarrow>
     user option response \<times> server" where
  "patch_profile userId phone country s =
     (case updateUser userId
             \<lparr> p_email = None, p_firstName = None, p_lastName = None, p_profileImageUrl = None,
               p_phone = phone, p_country = country, p_balanceUsd = None, p_role = None,
               p_status = None \<rparr> s of
        (Inl e, s1) \<Rightarrow> (patch_catch e, s1)
      | (Inr user, s1) \<Rightarrow> (Json 200 user, s1))"

text \<open>
  \<open>PATCH /api/campaigns/:id\<close> writes the fields of the request body into the campaign;
  the fields \<open>userId\<close> and \<open>celebrityId\<close> of a body are not modelled.
\<close>

definition campaignStatusEnum :: "string list" where
  "campaignStatusEnum = [''pending'', ''negotiating'', ''approved'', ''rejected'', ''completed'']"

record campaign_patch =
  cpp_customPriceUsd :: "int option option"
  cpp_campaignType :: "string option"
  cpp_description :: "string option option"
  cpp_status :: "string option"

definition updateCampaign :: "int \<Rightarrow> campaign_patch \<Rightarrow> campaign option io" where
  "updateCampaign id' data s =
     (if (case cpp_status data of None \<Rightarrow> False | Some st \<Rightarrow> st \<notin> set campaignStatusEnum)
      then (Inl (PgMsg InvalidEnumValue), s)
      else
        (case (case cpp_campaignType data of
                 None \<Rightarrow> Inr None
               | Some ty \<Rightarrow> map_sum id Some (varchar 100 ty)) of
           Inl e \<Rightarrow> (Inl e, s)
         | Inr ty \<Rightarrow>
             (case campaigns s id' of
                None \<Rightarrow> (Inr None, s)
              | Some c \<Rightarrow>
                  (let campaign =
                         c\<lparr>cp_customPriceUsd := set_field (cpp_customPriceUsd data) (cp_customPriceUsd c),
                           cp_campaignType := set_field ty (cp_campaignType c),
                           cp_description := set_field (cpp_description data) (cp_description c),
                           cp_status := set_field (cpp_status data) (cp_status c)\<rparr>
                   in (Inr (Some campaign), s\<lparr>campaigns := (campaigns s)(id' \<mapsto> campaign)\<rparr>)))))"

definition patch_campaign ::
    "string \<Rightarrow> int \<Rightarrow> campaign_patch \<Rightarrow> server \<Rightarrow> campaign option response \<times> server" where
  "patch_campaign sub id' body s =
     (if \<not> isAdmin sub s then (forbidden, s)
      else
        (case getCampaign id' s of
           None \<Rightarrow> (ErrorJson 404 (Msg ''Campaign not found''), s)
         | Some campaign \<Rightarrow>
             (case updateCampaign id' body s of
                (Inl e, s1) \<Rightarrow> (patch_catch e, s1)
              | (Inr updatedCampaign, s1) \<Rightarrow>
                  (case (if (case cpp_status body of None \<Rightarrow> False | Some st \<Rightarrow> st \<noteq> [])
                         then (case createNotification
                                      \<lparr> n_userId = cp_userId campaign, n_title = ''Campaign Update'',
                                        n_type = ''campaign'', n_isRead = False \<rparr> s1 of
                                 (Inl e, s2) \<Rightarrow> (Inl e, s2)
                               | (Inr u, s2) \<Rightarrow>
                                   (Inr (), broadcastToUser (cp_userId campaign) (campaign_update id') s2))
                         else (Inr (), s1)) of
                     (Inl e, s3) \<Rightarrow> (patch_catch e, s3)
                   | (Inr u, s3) \<Rightarrow>
                       (case createAdminLog \<lparr> l_adminId = sub, l_action = ''Updated campaign'' \<rparr> s3 of
                          (Inl e, s4) \<Rightarrow> (patch_catch e, s4)
                        | (Inr u, s4) \<Rightarrow> (Json 200 updatedCampaign, s4))))))"

text \<open>
  \<open>createMessage\<close>: \<open>thread_id\<close> is \<open>varchar(100)\<close>, \<open>thread_type\<close> and \<open>sender\<close> are
  enums and \<open>sender_user_id\<close> names an existing user.
\<close>

definition createMessage :: "message \<Rightarrow> (int \<times> message) io" where
  "createMessage data s =
     (if m_threadType data \<notin> set messageTypeEnum \<or> m_sender data \<notin> set [''user'', ''admin'']
      then (Inl (PgMsg InvalidEnumValue), s)
      else
        (case varchar 100 (m_threadId data) of
           Inl e \<Rightarrow> (Inl e, s)
         | Inr threadId \<Rightarrow>
             (if (case m_senderUserId data of None \<Rightarrow> False | Some u \<Rightarrow> users s u = None)
              then (Inl (PgMsg ForeignKeyViolation), s)
              else (Inr (messageSeq s, data\<lparr>m_threadId := threadId\<rparr>),
                    s\<lparr>messages := (messages s)(messageSeq s \<mapsto> data\<lparr>m_threadId := threadId\<rparr>),
                      messageSeq := messageSeq s + 1\<rparr>))))"

text \<open>
  The broadcast branch of \<open>POST /api/messages\<close>:
  \<open>wss.clients.forEach\<close> sends to every client whose \<open>readyState\<close> is \<open>OPEN\<close>.
\<close>

fun broadcastToAll :: "nat list \<Rightarrow> ws_event \<Rightarrow> server \<Rightarrow> server" where
  "broadcastToAll [] data s = s"
| "broadcastToAll (client # clients) data s =
     broadcastToAll clients data (if is_open client s then ws_send client data s else s)"

record message_body =
  mb_threadId :: string
  mb_threadType :: string
  mb_referenceId :: int
  mb_text :: string

definition access_denied :: "'a response" where
  "access_denied = ErrorJson 403 (Msg ''Access denied to this conversation'')"

definition post_messages ::
    "string \<Rightarrow> message_body \<Rightarrow> server \<Rightarrow> (int \<times> message) response \<times> server" where
  "post_messages userId body s =
     (let admin = (case getUser userId s of None \<Rightarrow> False | Some user \<Rightarrow> u_role user = ''admin'');
          threadId = mb_threadId body; threadType = mb_threadType body;
          referenceId = mb_referenceId body
      in
        if \<not> admin \<and> threadType = ''booking'' \<and>
           (case getBooking referenceId s of None \<Rightarrow> True | Some booking \<Rightarrow> b_userId booking \<noteq> userId)
        then (access_denied, s)
        else if \<not> admin \<and> threadType \<noteq> ''booking'' \<and> threadType = ''campaign'' \<and>
           (case getCampaign referenceId s of None \<Rightarrow> True | Some campaign \<Rightarrow> cp_userId campaign \<noteq> userId)
        then (access_denied, s)
        else
          (case createMessage
                  \<lparr> m_threadId = threadId, m_threadType = threadType, m_referenceId = referenceId,
                    m_sender = (if admin then ''admin'' else ''user''),
                    m_senderUserId = Some userId, m_text = mb_text body \<rparr> s of
             (Inl e, s1) \<Rightarrow> (patch_catch e, s1)
           | (Inr message, s1) \<Rightarrow>
               (if admin then
                  (let targetUserId =
                         (if threadType = ''booking''
                          then map_option b_userId (getBooking referenceId s1)
                          else if threadType = ''campaign''
                          then map_option cp_userId (getCampaign referenceId s1)
                          else None)
                   in case targetUserId of
                        None \<Rightarrow> (Json 201 message, s1)
                      | Some target \<Rightarrow>
                          if target = [] then (Json 201 message, s1)
                          else (Json 201 message,
                                broadcastToUser target (new_message threadId message False) s1))
                else
                  (Json 201 message,
                   broadcastToAll (wss_clients s1) (new_message threadId message True) s1))))"

section \<open>WebSocket connections (routes.ts: \<open>wss.on("connection", ...)\<close>)\<close>

text \<open>
  A frame from a client either fails to parse into an object with fields (\<open>JSON.parse\<close>
  or the field access throws, and the handler's \<open>catch\<close> swallows it), or has a
  \<open>type\<close> and a \<open>token\<close>. A token that is no string is never a key of \<open>wsAuthTokens\<close>.
\<close>

datatype token_field = NoToken | StrToken string | OtherToken

datatype frame = Unparseable | Parsed "string option" token_field

definition ws_connection :: "server \<Rightarrow> server" where
  "ws_connection s =
     s\<lparr>sockets := (sockets s)(socketSeq s \<mapsto> \<lparr> sock_userId = None, readyState = OPEN, sent = [] \<rparr>),
       socketSeq := socketSeq s + 1,
       wss_clients := wss_clients s @ [socketSeq s]\<rparr>"

definition truthy :: "token_field \<Rightarrow> bool" where
  "truthy token = (case token of NoToken \<Rightarrow> False | StrToken t \<Rightarrow> t \<noteq> [] | OtherToken \<Rightarrow> True)"

definition lookup_token :: "token_field \<Rightarrow> server \<Rightarrow> (string \<times> int) option" where
  "lookup_token token s = (case token of StrToken t \<Rightarrow> wsAuthTokens s t | _ \<Rightarrow> None)"

definition delete_token :: "token_field \<Rightarrow> server \<Rightarrow> server" where
  "delete_token token s =
     (case token of
        StrToken t \<Rightarrow> s\<lparr>wsAuthTokens := (wsAuthTokens s)(t := None)\<rparr>
      | _ \<Rightarrow> s)"

text \<open>
  The \<open>message\<close> handler of the socket \<open>ws\<close>, at the time \<open>now\<close> (\<open>Date.now()\<close>).
  Only an open socket has message events.
\<close>

definition ws_on_message :: "nat \<Rightarrow> frame \<Rightarrow> int \<Rightarrow> server \<Rightarrow> server" where
  "ws_on_message ws data now s =
     (if \<not> is_open ws s then s
      else
        (case data of
           Unparseable \<Rightarrow> s
         | Parsed type token \<Rightarrow>
             if type = Some ''auth'' \<and> truthy token then
               (case (case lookup_token token s of
                        None \<Rightarrow> None
                      | Some (uid, expires) \<Rightarrow> if expires > now then Some uid else None) of
                  Some uid \<Rightarrow>
                    (let s1 = s\<lparr>sockets :=
                                  (sockets s)(ws := map_option (\<lambda>w. w\<lparr>sock_userId := Some uid\<rparr>)
                                                      (sockets s ws))\<rparr>;
                         s2 = s1\<lparr>wsClients := (wsClients s1)(uid \<mapsto> ws)\<rparr>;
                         s3 = delete_token token s2
                     in ws_send ws auth_success s3)
                | None \<Rightarrow> ws_send ws (auth_error ''Invalid or expired token'') s)
             else s))"

text \<open>
  The \<open>close\<close> handler; the socket leaves \<open>wss.clients\<close> and is \<open>CLOSED\<close>. A socket
  closes once.
\<close>

definition ws_on_close :: "nat \<Rightarrow> server \<Rightarrow> server" where
  "ws_on_close ws s =
     (case sockets s ws of
        None \<Rightarrow> s
      | Some w \<Rightarrow>
          (if readyState w = CLOSED then s
           else
             (let s1 = (case sock_userId w of
                          None \<Rightarrow> s
                        | Some uid \<Rightarrow>
                            if uid \<noteq> [] then s\<lparr>wsClients := (wsClients s)(uid := None)\<rparr> else s)
              in s1\<lparr>sockets := (sockets s1)(ws \<mapsto> w\<lparr>readyState := CLOSED\<rparr>),
                    wss_clients := removeAll ws (wss_clients s1)\<rparr>)))"

text \<open>
  \<open>generateWsToken\<close>: the token is the string the random generator and the clock
  produce, given here as \<open>token\<close>; it expires 60000 ms after \<open>now\<close>.
\<close>

definition generateWsToken :: "string \<Rightarrow> string \<Rightarrow> int \<Rightarrow> server \<Rightarrow> server" where
  "generateWsToken userId token now s =
     s\<lparr>wsAuthTokens := (wsAuthTokens s)(token \<mapsto> (userId, now + 60000))\<rparr>"

section \<open>Price lookup (routes.ts: \<open>getCryptoPrice\<close>)\<close>

text \<open>
  The answer of the external price source to the request for one coin id: the request
  or the decoding of its body throws (\<open>FetchThrows\<close>; also a body that is \<open>null\<close>, on
  which the field access throws), or the body is an object, given by the number under
  \<open>data[coinId].usd\<close> for each coin id, \<open>None\<close> where the entry or its \<open>usd\<close> is
  missing. Prices are rational numbers; no arithmetic is done on them here.
\<close>

datatype fetch_result = FetchThrows | FetchJson "string \<Rightarrow> rat option"

definition COINGECKO_IDS :: "(string \<times> string) list" where
  "COINGECKO_IDS = [(''BTC'', ''bitcoin''), (''ETH'', ''ethereum''), (''USDT'', ''tether'')]"

definition getCryptoPrice :: "string \<Rightarrow> fetch_result \<Rightarrow> rat" where
  "getCryptoPrice coin response =
     (case map_of COINGECKO_IDS coin of
        None \<Rightarrow> 1
      | Some coinId \<Rightarrow>
          (case response of
             FetchJson data \<Rightarrow>
               (case data coinId of
                  None \<Rightarrow> 1
                | Some usd \<Rightarrow> if usd = 0 then 1 else usd)
           | FetchThrows \<Rightarrow>
               if coin = ''USDT'' then 1
               else if coin = ''BTC'' then 97000
               else if coin = ''ETH'' then 3400
               else 1))"

section \<open>The service as a whole\<close>

text \<open>
  The events the server reacts to: the three events of a WebSocket connection, the
  request for a handshake token, and the requests whose handlers write a balance or push
  an event. Each is handled to its end before the next one.
\<close>

datatype event =
    Connection
  | Message nat frame int
  | Close nat
  | GET_ws_token string string int
  | POST_bookings string booking_body
  | PATCH_booking_status string int string
  | PATCH_deposit_status string int string "string option"
  | PATCH_campaign string int campaign_patch
  | POST_messages string message_body
  | PATCH_admin_user string string user_patch
  | PATCH_admin_balance string string int
  | PATCH_profile string "string option option" "string option option"

fun step :: "event \<Rightarrow> server \<Rightarrow> server" where
  "step Connection s = ws_connection s"
| "step (Message ws data now) s = ws_on_message ws data now s"
| "step (Close ws) s = ws_on_close ws s"
| "step (GET_ws_token userId token now) s = generateWsToken userId token now s"
| "step (POST_bookings userId body) s = snd (post_bookings userId body s)"
| "step (PATCH_booking_status sub id' status) s = snd (patch_booking_status sub id' status s)"
| "step (PATCH_deposit_status sub id' status txHash) s =
     snd (patch_deposit_status sub id' status txHash s)"
| "step (PATCH_campaign sub id' body) s = snd (patch_campaign sub id' body s)"
| "step (POST_messages userId body) s = snd (post_messages userId body s)"
| "step (PATCH_admin_user sub id' body) s = snd (patch_admin_user sub id' body s)"
| "step (PATCH_admin_balance sub id' amount) s = snd (patch_admin_balance sub id' amount s)"
| "step (PATCH_profile userId phone country) s = snd (patch_profile userId phone country s)"

fun run :: "event list \<Rightarrow> server \<Rightarrow> server" where
  "run [] s = s"
| "run (e # es) s = run es (step e s)"

text \<open>
  A socket has authenticated when the \<open>userId\<close> of its handler is set; the events an
  unauthenticated socket may have been sent are the answer \<open>auth_error\<close> and the
  broadcast \<open>new_message\<close> with \<open>isFromUser\<close>.
\<close>

definition authenticated :: "nat \<Rightarrow> server \<Rightarrow> bool" where
  "authenticated ws s = (case sockets s ws of None \<Rightarrow> False | Some w \<Rightarrow> sock_userId w \<noteq> None)"

definition received :: "nat \<Rightarrow> server \<Rightarrow> ws_event list" where
  "received ws s = (case sockets s ws of None \<Rightarrow> [] | Some w \<Rightarrow> sent w)"

fun unsolicited :: "ws_event \<Rightarrow> bool" where
  "unsolicited (auth_error m) = True"
| "unsolicited (new_message threadId message isFromUser) = isFromUser"
| "unsolicited e = False"

definition registered_authenticated :: "server \<Rightarrow> bool" where
  "registered_authenticated s = (\<forall>uid ws. wsClients s uid = Some ws \<longrightarrow> authenticated ws s)"

definition unauthenticated_unpushed :: "server \<Rightarrow> bool" where
  "unauthenticated_unpushed s =
     (\<forall>ws. \<not> authenticated ws s \<longrightarrow> list_all unsolicited (received ws s))"

text \<open>
  Socket addresses are handed out in order, so a new connection never takes the address
  of a socket that exists.
\<close>

definition sockets_allocated :: "server \<Rightarrow> bool" where
  "sockets_allocated s = (\<forall>ws. sockets s ws \<noteq> None \<longrightarrow> ws < socketSeq s)"

definition push_invariant :: "server \<Rightarrow> bool" where
  "push_invariant s =
     (sockets_allocated s \<and> registered_authenticated s \<and> unauthenticated_unpushed s)"

text \<open>The events that can register a channel: the messages of a client.\<close>

fun client_message :: "event \<Rightarrow> bool" where
  "client_message (Message ws data now) = True"
| "client_message e = False"

section \<open>Example states\<close>

definition blank_user :: user where
  "blank_user =
     \<lparr> u_email = None, u_firstName = None, u_lastName = None, u_profileImageUrl = None,
       u_phone = None, u_country = None, u_balanceUsd = 0, u_role = ''user'',
       u_status = ''active'' \<rparr>"

definition empty_server :: server where
  "empty_server =
     \<lparr> users = Map.empty, celebrities = Map.empty, bookings = Map.empty,
       campaigns = Map.empty, messages = Map.empty, deposits = Map.empty,
       notifications = [], adminLogs = [], bookingSeq = 1, messageSeq = 1,
       sockets = Map.empty, socketSeq = 0, wss_clients = [], wsClients = Map.empty,
       wsAuthTokens = Map.empty \<rparr>"

text \<open>
  A user with 100.00 USD, an administrator, an offering priced 80.00 USD, and for the
  user a pending booking at the snapshot price 80.00 and a pending deposit of 50.00.
\<close>

definition example_server :: server where
  "example_server =
     empty_server
       \<lparr> users := [''alice'' \<mapsto> blank_user\<lparr>u_balanceUsd := 10000\<rparr>,
                   ''root'' \<mapsto> blank_user\<lparr>u_role := ''admin''\<rparr>],
         celebrities := [1 \<mapsto> \<lparr> c_name = ''Star'', c_priceUsd = 8000, c_category = ''music'',
                                 c_imageUrl = None, c_bio = None, c_status = ''active'' \<rparr>],
         bookings := [1 \<mapsto> \<lparr> b_userId = ''alice'', b_celebrityId = 1, b_priceUsd = 8000,
                              b_status = ''pending'', b_eventDate = None, b_eventDetails = None \<rparr>],
         deposits := [1 \<mapsto> \<lparr> d_userId = ''alice'', d_amountUsd = 5000, d_coin = ''BTC'',
                              d_cryptoAmountExpected = 100000, d_walletAddress = None,
                              d_txHash = None, d_status = ''pending'' \<rparr>],
         bookingSeq := 2 \<rparr>"

definition example_body :: booking_body where
  "example_body = \<lparr> rq_celebrityId = 1, rq_eventDate = None, rq_eventDetails = None \<rparr>"

text \<open>
  The example with two connections: socket 0 has authenticated for alice and is her
  registered channel, socket 1 has not authenticated, and a second token of alice is
  valid until 60010. A message body for the thread of alice's booking.
\<close>

definition example_channels :: server where
  "example_channels =
     example_server
       \<lparr> sockets := [0 \<mapsto> \<lparr> sock_userId = Some ''alice'', readyState = OPEN, sent = [auth_success] \<rparr>,
                     1 \<mapsto> \<lparr> sock_userId = None, readyState = OPEN, sent = [] \<rparr>],
         socketSeq := 2,
         wss_clients := [0, 1],
         wsClients := [''alice'' \<mapsto> 0],
         wsAuthTokens := [''t2'' \<mapsto> (''alice'', 60010)] \<rparr>"

definition example_message :: message_body where
  "example_message =
     \<lparr> mb_threadId = ''booking-1'', mb_threadType = ''booking'', mb_referenceId = 1,
       mb_text = ''hello'' \<rparr>"


section \<open>Booking creation\<close>






lemma broadcastToUser_tables [simp]:
  "users (broadcastToUser uid d s) = users s"
  "bookings (broadcastToUser uid d s) = bookings s"
  "deposits (broadcastToUser uid d s) = deposits s"
  "celebrities (broadcastToUser uid d s) = celebrities s"
  "notifications (broadcastToUser uid d s) = notifications s"
  "adminLogs (broadcastToUser uid d s) = adminLogs s"
  by (simp_all add: broadcastToUser_def ws_send_def split: option.splits)




section \<open>Deposit status\<close>

lemma broadcastToUser_deposits [simp]: "deposits (broadcastToUser uid d s) = deposits s"
  by (simp add: broadcastToUser_def ws_send_def split: option.splits)

lemma updateUserBalance_frame [simp]:
  "deposits (snd (updateUserBalance i a s)) = deposits s"
  "bookings (snd (updateUserBalance i a s)) = bookings s"
  "celebrities (snd (updateUserBalance i a s)) = celebrities s"
  "sockets (snd (updateUserBalance i a s)) = sockets s"
  "wsClients (snd (updateUserBalance i a s)) = wsClients s"
  "wss_clients (snd (updateUserBalance i a s)) = wss_clients s"
  by (simp_all add: updateUserBalance_def Let_def split: option.splits)





lemmas example_defs = example_server_def empty_server_def blank_user_def example_body_def






lemma example_root_admin: "isAdmin ''root'' example_server"
  by (simp add: isAdmin_def getUser_def example_defs)




lemma patch_deposit_status_hash_too_long:
  assumes "isAdmin sub s" and "deposits s i = Some d" and "status \<in> set depositStatusEnum"
    and "length h > 500" and "\<not> list_all (\<lambda>c. c = CHR '' '') (drop 500 h)"
  shows "patch_deposit_status sub i status (Some h) s =
           (ErrorJson 400 (PgMsg ValueTooLong),
            if status = ''approved'' \<and> d_status d = ''pending''
            then snd (updateUserBalance (d_userId d) (d_amountUsd d) s) else s)"
proof -
  have "h \<noteq> []" using assms(4) by auto
  then show ?thesis
    using assms
    by (simp add: patch_deposit_status_def getDeposit_def Let_def patch_catch_def
        updateDepositStatus_def varchar_def)
qed

text \<open>
  Claim C5 at a failing input. An administrator approves the pending example deposit with
  a transaction hash of 501 characters. The credit is a statement of its own and is kept;
  the status update that follows is rejected by the column \<open>varchar(500)\<close>; the request
  is answered with status 400. The balance went from 100.00 to 150.00 and the deposit is
  still \<open>pending\<close>.
\<close>

theorem approval_credit_without_status:
  "fst (patch_deposit_status ''root'' 1 ''approved'' (Some (replicate 501 (CHR ''x''))) example_server) =
     ErrorJson 400 (PgMsg ValueTooLong) \<and>
   map_option u_balanceUsd (users example_server ''alice'') = Some 10000 \<and>
   map_option u_balanceUsd
     (users (snd (patch_deposit_status ''root'' 1 ''approved'' (Some (replicate 501 (CHR ''x'')))
        example_server)) ''alice'') = Some 15000 \<and>
   map_option d_status
     (deposits (snd (patch_deposit_status ''root'' 1 ''approved'' (Some (replicate 501 (CHR ''x'')))
        example_server)) 1) = Some ''pending''"
proof -
  let ?d = "\<lparr> d_userId = ''alice'', d_amountUsd = 5000, d_coin = ''BTC'',
               d_cryptoAmountExpected = 100000, d_walletAddress = None,
               d_txHash = None, d_status = ''pending'' \<rparr>"
  have d: "deposits example_server 1 = Some ?d"
    by (simp add: example_defs)
  have a: "''approved'' \<in> set depositStatusEnum"
    by (simp add: depositStatusEnum_def)
  have len: "length (replicate 501 (CHR ''x'')) > 500" by simp
  have sp: "\<not> list_all (\<lambda>c. c = CHR '' '') (drop 500 (replicate 501 (CHR ''x'')))"
    by simp
  have run: "patch_deposit_status ''root'' 1 ''approved'' (Some (replicate 501 (CHR ''x''))) example_server =
      (ErrorJson 400 (PgMsg ValueTooLong), snd (updateUserBalance ''alice'' 5000 example_server))"
    using patch_deposit_status_hash_too_long [OF example_root_admin d a len sp] by simp
  have bal: "map_option u_balanceUsd
      (users (snd (updateUserBalance ''alice'' 5000 example_server)) ''alice'') = Some 15000"
    by (simp add: updateUserBalance_def Let_def example_defs)
  have b0: "map_option u_balanceUsd (users example_server ''alice'') = Some 10000"
    by (simp add: example_defs)
  show ?thesis unfolding run using bal b0 d by simp
qed

section \<open>Booking status\<close>

lemma updateBookingStatus_accepts:
  "bookings s i = Some b \<Longrightarrow> status \<in> set bookingStatusEnum \<Longrightarrow>
   updateBookingStatus i status s =
     (Inr (Some (b\<lparr>b_status := status\<rparr>)),
      s\<lparr>bookings := (bookings s)(i \<mapsto> b\<lparr>b_status := status\<rparr>)\<rparr>)"
  by (simp add: updateBookingStatus_def)

lemma updateBookingStatus_rejects:
  "status \<notin> set bookingStatusEnum \<Longrightarrow>
   updateBookingStatus i status s = (Inl (PgMsg InvalidEnumValue), s)"
  by (simp add: updateBookingStatus_def)

lemmas booking_handler_defs =
  patch_booking_status_def getBooking_def Let_def patch_catch_def updateBookingStatus_def
  createNotification_def createAdminLog_def










section \<open>Balance writes\<close>

lemma ws_send_users [simp]: "users (ws_send c d s) = users s"
  by (simp add: ws_send_def split: option.splits)

lemma broadcastToAll_users [simp]: "users (broadcastToAll cs d s) = users s"
  by (induction cs arbitrary: s) simp_all



















section \<open>Price lookup fallback\<close>

text \<open>
  Claim C7 at a failing input. When the price source answers with an object that has no
  entry for the coin, \<open>getCryptoPrice\<close> returns 1 for BTC and for ETH; the per-asset
  values 97000 and 3400 are returned only when the request throws.
\<close>

theorem no_data_price_is_one:
  "getCryptoPrice ''BTC'' (FetchJson (\<lambda>coinId. None)) = 1 \<and>
   getCryptoPrice ''ETH'' (FetchJson (\<lambda>coinId. None)) = 1 \<and>
   getCryptoPrice ''BTC'' FetchThrows = 97000 \<and>
   getCryptoPrice ''ETH'' FetchThrows = 3400 \<and>
   getCryptoPrice ''USDT'' FetchThrows = 1"
  by (simp add: getCryptoPrice_def COINGECKO_IDS_def)

section \<open>Push channel: what an unauthenticated socket is sent\<close>

lemma ws_send_frame [simp]:
  "wsClients (ws_send c d s) = wsClients s"
  "socketSeq (ws_send c d s) = socketSeq s"
  "wss_clients (ws_send c d s) = wss_clients s"
  by (simp_all add: ws_send_def split: option.splits)

lemma authenticated_ws_send [simp]: "authenticated ws (ws_send c d s) = authenticated ws s"
  by (simp add: authenticated_def ws_send_def split: option.splits)

lemma is_open_ws_send [simp]: "is_open ws (ws_send c d s) = is_open ws s"
  by (simp add: is_open_def ws_send_def split: option.splits)

lemma sockets_ws_send_None [simp]: "(sockets (ws_send c d s) ws = None) = (sockets s ws = None)"
  by (simp add: ws_send_def split: option.splits)

lemma received_ws_send:
  "received ws (ws_send c d s) =
     (if ws = c \<and> sockets s c \<noteq> None then received ws s @ [d] else received ws s)"
  by (auto simp: received_def ws_send_def split: option.splits)

lemma push_invariant_ws_send:
  assumes "push_invariant s" and "authenticated c s \<or> unsolicited d"
  shows "push_invariant (ws_send c d s)"
  using assms
  by (auto simp: push_invariant_def sockets_allocated_def registered_authenticated_def
      unauthenticated_unpushed_def received_ws_send)

lemma push_invariant_broadcastToUser:
  assumes "push_invariant s"
  shows "push_invariant (broadcastToUser uid d s)"
proof (cases "wsClients s uid")
  case None
  with assms show ?thesis by (simp add: broadcastToUser_def)
next
  case (Some c)
  with assms have "authenticated c s"
    by (simp add: push_invariant_def registered_authenticated_def)
  with assms Some show ?thesis
    by (simp add: broadcastToUser_def push_invariant_ws_send)
qed

lemma push_invariant_broadcastToAll:
  "push_invariant s \<Longrightarrow> unsolicited d \<Longrightarrow> push_invariant (broadcastToAll cs d s)"
  by (induction cs arbitrary: s) (simp_all add: push_invariant_ws_send)

lemma push_invariant_cong:
  "sockets s' = sockets s \<Longrightarrow> wsClients s' = wsClients s \<Longrightarrow> socketSeq s' = socketSeq s \<Longrightarrow>
   push_invariant s' = push_invariant s"
  by (simp add: push_invariant_def sockets_allocated_def registered_authenticated_def
      unauthenticated_unpushed_def authenticated_def received_def)

lemma push_invariant_ws_connection:
  assumes "push_invariant s"
  shows "push_invariant (ws_connection s)"
proof -
  have fresh: "sockets s (socketSeq s) = None"
    using assms by (auto simp: push_invariant_def sockets_allocated_def)
  have a: "authenticated ws (ws_connection s) = authenticated ws s" for ws
    using fresh by (auto simp: authenticated_def ws_connection_def)
  have r: "received ws (ws_connection s) = received ws s" for ws
    using fresh by (auto simp: received_def ws_connection_def)
  have c: "wsClients (ws_connection s) = wsClients s"
    by (simp add: ws_connection_def)
  have q: "sockets_allocated (ws_connection s)"
    using assms by (auto simp: push_invariant_def sockets_allocated_def ws_connection_def less_Suc_eq)
  show ?thesis
    using assms q
    by (simp add: push_invariant_def registered_authenticated_def unauthenticated_unpushed_def
        a r c)
qed

lemma push_invariant_ws_on_close:
  assumes "push_invariant s"
  shows "push_invariant (ws_on_close ws s)"
proof (cases "sockets s ws")
  case None
  with assms show ?thesis by (simp add: ws_on_close_def)
next
  case (Some w)
  have a: "authenticated c (ws_on_close ws s) = authenticated c s" for c
    using Some by (auto simp: authenticated_def ws_on_close_def Let_def split: option.splits)
  have r: "received c (ws_on_close ws s) = received c s" for c
    using Some by (auto simp: received_def ws_on_close_def Let_def split: option.splits)
  have c: "wsClients (ws_on_close ws s) uid = Some x \<Longrightarrow> wsClients s uid = Some x" for uid x
    using Some by (auto simp: ws_on_close_def Let_def split: option.splits if_splits)
  have q: "sockets_allocated (ws_on_close ws s)"
    using assms Some
    by (auto simp: push_invariant_def sockets_allocated_def ws_on_close_def Let_def
        split: option.splits if_splits)
  show ?thesis
    using assms q c
    by (auto simp: push_invariant_def registered_authenticated_def unauthenticated_unpushed_def
        a r)
qed

lemma push_invariant_generateWsToken:
  "push_invariant (generateWsToken userId token now s) = push_invariant s"
  by (rule push_invariant_cong) (simp_all add: generateWsToken_def)


lemma push_invariant_register:
  assumes inv: "push_invariant s" and sock: "sockets s ws = Some w"
  shows "push_invariant
           (s\<lparr>sockets := (sockets s)(ws \<mapsto> w\<lparr>sock_userId := Some uid\<rparr>),
              wsClients := (wsClients s)(uid \<mapsto> ws)\<rparr>)"
    (is "push_invariant ?s'")
proof -
  have a: "authenticated c ?s' = (c = ws \<or> authenticated c s)" for c
    using sock by (auto simp: authenticated_def)
  have r: "received c ?s' = received c s" for c
    using sock by (auto simp: received_def)
  have q: "sockets_allocated ?s'"
    using inv sock by (auto simp: push_invariant_def sockets_allocated_def)
  show ?thesis
    using inv q
    by (auto simp: push_invariant_def registered_authenticated_def unauthenticated_unpushed_def
        a r)
qed

lemma authenticated_register:
  "sockets s ws = Some w \<Longrightarrow>
   authenticated ws
     (s\<lparr>sockets := (sockets s)(ws \<mapsto> w\<lparr>sock_userId := Some uid\<rparr>),
        wsClients := (wsClients s)(uid \<mapsto> ws)\<rparr>)"
  by (simp add: authenticated_def)

lemma delete_token_frame [simp]:
  "sockets (delete_token token s) = sockets s"
  "wsClients (delete_token token s) = wsClients s"
  "socketSeq (delete_token token s) = socketSeq s"
  by (simp_all add: delete_token_def split: token_field.splits)

lemma authenticated_delete_token [simp]:
  "authenticated ws (delete_token token s) = authenticated ws s"
  by (simp add: authenticated_def)

lemma push_invariant_delete_token [simp]:
  "push_invariant (delete_token token s) = push_invariant s"
  by (rule push_invariant_cong) simp_all

lemma push_invariant_ws_on_message:
  assumes "push_invariant s"
  shows "push_invariant (ws_on_message ws data now s)"
proof (cases "is_open ws s")
  case False
  with assms show ?thesis by (simp add: ws_on_message_def)
next
  case True
  then obtain w where w: "sockets s ws = Some w"
    by (auto simp: is_open_def split: option.splits)
  show ?thesis
  proof (cases data)
    case Unparseable
    with assms show ?thesis by (simp add: ws_on_message_def)
  next
    case (Parsed type token)
    show ?thesis
    proof (cases "type = Some ''auth'' \<and> truthy token")
      case False
      with assms Parsed show ?thesis by (auto simp: ws_on_message_def)
    next
      case auth: True
      show ?thesis
      proof (cases "case lookup_token token s of None \<Rightarrow> None
                     | Some (uid, expires) \<Rightarrow> if expires > now then Some uid else None")
        case None
        with assms True Parsed auth show ?thesis
          by (simp add: ws_on_message_def push_invariant_ws_send)
      next
        case (Some uid)
        let ?s2 = "s\<lparr>sockets := (sockets s)(ws \<mapsto> w\<lparr>sock_userId := Some uid\<rparr>),
                      wsClients := (wsClients s)(uid \<mapsto> ws)\<rparr>"
        have "push_invariant (ws_send ws auth_success (delete_token token ?s2))"
          using push_invariant_register [OF assms w, of uid] authenticated_register [OF w, of uid]
          by (intro push_invariant_ws_send) simp_all
        with True Parsed auth Some w show ?thesis
          by (simp add: ws_on_message_def Let_def)
      qed
    qed
  qed
qed


lemma push_invariant_tables [simp]:
  "push_invariant (s\<lparr>users := us\<rparr>) = push_invariant s"
  "push_invariant (s\<lparr>bookings := bs\<rparr>) = push_invariant s"
  "push_invariant (s\<lparr>bookingSeq := n\<rparr>) = push_invariant s"
  "push_invariant (s\<lparr>campaigns := cs\<rparr>) = push_invariant s"
  "push_invariant (s\<lparr>messages := ms\<rparr>) = push_invariant s"
  "push_invariant (s\<lparr>messageSeq := n\<rparr>) = push_invariant s"
  "push_invariant (s\<lparr>deposits := ds\<rparr>) = push_invariant s"
  "push_invariant (s\<lparr>notifications := ns\<rparr>) = push_invariant s"
  "push_invariant (s\<lparr>adminLogs := ls\<rparr>) = push_invariant s"
  by (rule push_invariant_cong; simp)+

lemma push_invariant_post_bookings:
  "push_invariant s \<Longrightarrow> push_invariant (snd (post_bookings userId body s))"
  by (simp add: post_bookings_def getCelebrity_def createBookingWithBalanceDeduction_def
      transaction_def insertBooking_def createNotification_def post_bookings_catch_def Let_def
      push_invariant_broadcastToUser split: option.splits)

lemma push_invariant_patch_booking_status:
  "push_invariant s \<Longrightarrow> push_invariant (snd (patch_booking_status sub i status s))"
  by (simp add: booking_handler_defs updateUserBalance_def forbidden_def
      push_invariant_broadcastToUser split: option.splits)

lemma push_invariant_patch_deposit_status:
  "push_invariant s \<Longrightarrow> push_invariant (snd (patch_deposit_status sub i status txHash s))"
  by (simp add: patch_deposit_status_def getDeposit_def Let_def patch_catch_def
      updateDepositStatus_def createNotification_def createAdminLog_def updateUserBalance_def
      varchar_def forbidden_def push_invariant_broadcastToUser split: option.splits)

lemma push_invariant_patch_campaign:
  "push_invariant s \<Longrightarrow> push_invariant (snd (patch_campaign sub i body s))"
  by (simp add: patch_campaign_def getCampaign_def updateCampaign_def varchar_def Let_def
      createNotification_def createAdminLog_def patch_catch_def forbidden_def
      push_invariant_broadcastToUser split: option.splits)

lemma push_invariant_post_messages:
  "push_invariant s \<Longrightarrow> push_invariant (snd (post_messages userId body s))"
  by (simp add: post_messages_def createMessage_def varchar_def Let_def patch_catch_def
      access_denied_def push_invariant_broadcastToUser push_invariant_broadcastToAll
      split: option.splits)

lemma push_invariant_patch_admin_user:
  "push_invariant s \<Longrightarrow> push_invariant (snd (patch_admin_user sub i body s))"
  by (simp add: patch_admin_user_def updateUser_def createAdminLog_def patch_catch_def
      forbidden_def split: option.splits)

lemma push_invariant_patch_admin_balance:
  "push_invariant s \<Longrightarrow> push_invariant (snd (patch_admin_balance sub i amount s))"
  by (simp add: patch_admin_balance_def createAdminLog_def createNotification_def
      updateUserBalance_def Let_def patch_catch_def forbidden_def split: option.splits)

lemma push_invariant_patch_profile:
  "push_invariant s \<Longrightarrow> push_invariant (snd (patch_profile userId phone country s))"
  by (simp add: patch_profile_def updateUser_def patch_catch_def split: option.splits)

lemma push_invariant_step: "push_invariant s \<Longrightarrow> push_invariant (step e s)"
  by (cases e)
    (simp_all add: push_invariant_ws_connection push_invariant_ws_on_message
      push_invariant_ws_on_close push_invariant_generateWsToken push_invariant_post_bookings
      push_invariant_patch_booking_status push_invariant_patch_deposit_status
      push_invariant_patch_campaign push_invariant_post_messages
      push_invariant_patch_admin_user push_invariant_patch_admin_balance
      push_invariant_patch_profile)

lemma push_invariant_run: "push_invariant s \<Longrightarrow> push_invariant (run evs s)"
  by (induction evs arbitrary: s) (simp_all add: push_invariant_step)

lemma push_invariant_start:
  "sockets s = Map.empty \<Longrightarrow> wsClients s = Map.empty \<Longrightarrow> push_invariant s"
  by (simp add: push_invariant_def sockets_allocated_def registered_authenticated_def
      unauthenticated_unpushed_def authenticated_def received_def)

section \<open>Push channel: registration and close\<close>

lemma broadcastToUser_wsClients [simp]: "wsClients (broadcastToUser uid d s) = wsClients s"
  by (simp add: broadcastToUser_def split: option.splits)

lemma broadcastToAll_wsClients [simp]: "wsClients (broadcastToAll cs d s) = wsClients s"
  by (induction cs arbitrary: s) simp_all

lemma handlers_wsClients:
  "wsClients (snd (post_bookings userId bbody s)) = wsClients s"
  "wsClients (snd (patch_booking_status sub i status s)) = wsClients s"
  "wsClients (snd (patch_deposit_status sub i status txHash s)) = wsClients s"
  "wsClients (snd (patch_campaign sub i cbody s)) = wsClients s"
  "wsClients (snd (post_messages userId mbody s)) = wsClients s"
  "wsClients (snd (patch_admin_user sub uid ubody s)) = wsClients s"
  "wsClients (snd (patch_admin_balance sub uid amount s)) = wsClients s"
  "wsClients (snd (patch_profile userId phone country s)) = wsClients s"
proof -
  show "wsClients (snd (post_bookings userId bbody s)) = wsClients s"
    by (simp add: post_bookings_def getCelebrity_def createBookingWithBalanceDeduction_def
      transaction_def insertBooking_def createNotification_def post_bookings_catch_def Let_def
      split: option.splits)
  show "wsClients (snd (patch_booking_status sub i status s)) = wsClients s"
    by (simp add: booking_handler_defs updateUserBalance_def forbidden_def split: option.splits)
  show "wsClients (snd (patch_deposit_status sub i status txHash s)) = wsClients s"
    by (simp add: patch_deposit_status_def getDeposit_def Let_def patch_catch_def
      updateDepositStatus_def createNotification_def createAdminLog_def updateUserBalance_def
      varchar_def forbidden_def split: option.splits)
  show "wsClients (snd (patch_campaign sub i cbody s)) = wsClients s"
    by (simp add: patch_campaign_def getCampaign_def updateCampaign_def varchar_def Let_def
      createNotification_def createAdminLog_def patch_catch_def forbidden_def
      split: option.splits)
  show "wsClients (snd (post_messages userId mbody s)) = wsClients s"
    by (simp add: post_messages_def createMessage_def varchar_def Let_def patch_catch_def
      access_denied_def split: option.splits)
  show "wsClients (snd (patch_admin_user sub uid ubody s)) = wsClients s"
    by (simp add: patch_admin_user_def updateUser_def createAdminLog_def patch_catch_def
      forbidden_def split: option.splits)
  show "wsClients (snd (patch_admin_balance sub uid amount s)) = wsClients s"
    by (simp add: patch_admin_balance_def createAdminLog_def createNotification_def
      updateUserBalance_def Let_def patch_catch_def forbidden_def split: option.splits)
  show "wsClients (snd (patch_profile userId phone country s)) = wsClients s"
    by (simp add: patch_profile_def updateUser_def patch_catch_def split: option.splits)
qed

lemma ws_on_close_unregistered:
  "wsClients s uid = None \<Longrightarrow> wsClients (ws_on_close ws s) uid = None"
  by (simp add: ws_on_close_def Let_def split: option.splits)

lemma step_unregistered:
  "wsClients s uid = None \<Longrightarrow> \<not> client_message e \<Longrightarrow> wsClients (step e s) uid = None"
  by (cases e)
    (simp_all add: handlers_wsClients ws_on_close_unregistered ws_connection_def
      generateWsToken_def)

lemma run_unregistered:
  "wsClients s uid = None \<Longrightarrow> list_all (\<lambda>e. \<not> client_message e) evs \<Longrightarrow>
   wsClients (run evs s) uid = None"
  by (induction evs arbitrary: s) (simp_all add: step_unregistered)

lemma broadcastToUser_unregistered:
  "wsClients s uid = None \<Longrightarrow> broadcastToUser uid d s = s"
  by (simp add: broadcastToUser_def)

lemma auth_registers:
  assumes "is_open new s" and "wsAuthTokens s token = Some (uid, expires)" and "now < expires"
    and "token \<noteq> []"
  shows "wsClients (ws_on_message new (Parsed (Some ''auth'') (StrToken token)) now s) uid = Some new"
    and "is_open new (ws_on_message new (Parsed (Some ''auth'') (StrToken token)) now s)"
    and "authenticated new (ws_on_message new (Parsed (Some ''auth'') (StrToken token)) now s)"
    and "old \<noteq> new \<Longrightarrow>
         sockets (ws_on_message new (Parsed (Some ''auth'') (StrToken token)) now s) old = sockets s old"
  using assms
  by (auto simp: ws_on_message_def truthy_def lookup_token_def delete_token_def Let_def
      ws_send_def is_open_def authenticated_def split: option.splits)

lemma close_unregisters:
  assumes "sockets s old = Some w" and "sock_userId w = Some uid" and "readyState w = OPEN"
    and "uid \<noteq> []"
  shows "wsClients (ws_on_close old s) uid = None"
    and "new \<noteq> old \<Longrightarrow> sockets (ws_on_close old s) new = sockets s new"
  using assms by (auto simp: ws_on_close_def Let_def)

text \<open>
  Claim C10. A socket \<open>old\<close> is open, was authenticated for the user and is the user's
  registered channel; an open socket \<open>new\<close> authenticates with a valid token of the same
  user, and then \<open>old\<close> closes. After the authentication the user's channel is \<open>new\<close>;
  after the close the user has no entry in \<open>wsClients\<close>, although \<open>new\<close> is open and
  authenticated, and a targeted push for the user changes nothing. This lasts through
  every sequence of events without a client message: the entry stays absent and every
  targeted push is dropped.
\<close>

theorem superseded_close_unregisters:
  assumes "sockets s old = Some w" and "sock_userId w = Some uid" and "readyState w = OPEN"
    and "uid \<noteq> []" and "wsClients s uid = Some old"
    and "is_open new s" and "new \<noteq> old"
    and "wsAuthTokens s token = Some (uid, expires)" and "now < expires" and "token \<noteq> []"
  shows "(let s1 = ws_on_message new (Parsed (Some ''auth'') (StrToken token)) now s;
              s2 = ws_on_close old s1
          in wsClients s1 uid = Some new \<and>
             wsClients s2 uid = None \<and> is_open new s2 \<and> authenticated new s2 \<and>
             broadcastToUser uid d s2 = s2 \<and>
             (\<forall>evs. list_all (\<lambda>e. \<not> client_message e) evs \<longrightarrow>
                wsClients (run evs s2) uid = None \<and>
                broadcastToUser uid d (run evs s2) = run evs s2))"
proof -
  let ?s1 = "ws_on_message new (Parsed (Some ''auth'') (StrToken token)) now s"
  let ?s2 = "ws_on_close old ?s1"
  have reg: "wsClients ?s1 uid = Some new" and op: "is_open new ?s1"
    and au: "authenticated new ?s1" and same: "sockets ?s1 old = sockets s old"
    using auth_registers [OF assms(6,8,9,10)] assms(7) by auto
  have old1: "sockets ?s1 old = Some w" using same assms(1) by simp
  have gone: "wsClients ?s2 uid = None"
    and kept: "sockets ?s2 new = sockets ?s1 new"
    using close_unregisters [OF old1 assms(2,3,4)] assms(7) by auto
  have op2: "is_open new ?s2" and au2: "authenticated new ?s2"
    using op au kept by (simp_all add: is_open_def authenticated_def)
  have later: "wsClients (run evs ?s2) uid = None \<and>
      broadcastToUser uid d (run evs ?s2) = run evs ?s2"
    if "list_all (\<lambda>e. \<not> client_message e) evs" for evs
    using run_unregistered [OF gone that] by (simp add: broadcastToUser_unregistered)
  show ?thesis
    unfolding Let_def
    using reg gone op2 au2 later broadcastToUser_unregistered [OF gone] by blast
qed

lemma example_channels_reached:
  "run [Connection, Connection, GET_ws_token ''alice'' ''t1'' 0,
        Message 0 (Parsed (Some ''auth'') (StrToken ''t1'')) 5,
        GET_ws_token ''alice'' ''t2'' 10] example_server = example_channels"
  by (simp add: ws_connection_def generateWsToken_def ws_on_message_def is_open_def truthy_def
      lookup_token_def delete_token_def ws_send_def Let_def example_channels_def example_defs
      fun_upd_twist)

text \<open>
  On the example with two connections: socket 0 is alice's channel, socket 1
  authenticates for alice, socket 0 closes, and a \<open>deposit_update\<close> for alice is dropped.
\<close>

theorem superseded_close_unregisters_witness:
  "sockets example_channels 0 =
     Some \<lparr> sock_userId = Some ''alice'', readyState = OPEN, sent = [auth_success] \<rparr> \<and>
   wsClients example_channels ''alice'' = Some 0 \<and> is_open 1 example_channels \<and>
   wsAuthTokens example_channels ''t2'' = Some (''alice'', 60010) \<and>
   wsClients (ws_on_message 1 (Parsed (Some ''auth'') (StrToken ''t2'')) 20 example_channels) ''alice'' =
     Some 1 \<and>
   wsClients (ws_on_close 0
       (ws_on_message 1 (Parsed (Some ''auth'') (StrToken ''t2'')) 20 example_channels)) ''alice'' =
     None \<and>
   is_open 1 (ws_on_close 0
       (ws_on_message 1 (Parsed (Some ''auth'') (StrToken ''t2'')) 20 example_channels)) \<and>
   broadcastToUser ''alice'' (deposit_update 1 ''approved'')
     (ws_on_close 0
       (ws_on_message 1 (Parsed (Some ''auth'') (StrToken ''t2'')) 20 example_channels)) =
     ws_on_close 0
       (ws_on_message 1 (Parsed (Some ''auth'') (StrToken ''t2'')) 20 example_channels)"
proof -
  have old: "sockets example_channels 0 =
     Some \<lparr> sock_userId = Some ''alice'', readyState = OPEN, sent = [auth_success] \<rparr>"
    by (simp add: example_channels_def)
  have reg: "wsClients example_channels ''alice'' = Some 0"
    by (simp add: example_channels_def)
  have new: "is_open 1 example_channels"
    by (simp add: example_channels_def is_open_def)
  have tok: "wsAuthTokens example_channels ''t2'' = Some (''alice'', 60010)"
    by (simp add: example_channels_def)
  note inst = superseded_close_unregisters
    [OF old _ _ _ reg new _ tok, of 20 "deposit_update 1 ''approved''", simplified Let_def]
  show ?thesis
    using inst old reg new tok by simp
qed


lemma received_broadcastToUser:
  assumes "push_invariant s" and "\<not> authenticated ws s"
  shows "received ws (broadcastToUser uid d s) = received ws s"
proof (cases "wsClients s uid")
  case None
  then show ?thesis by (simp add: broadcastToUser_def)
next
  case (Some c)
  with assms(1) have "authenticated c s"
    by (simp add: push_invariant_def registered_authenticated_def)
  with assms(2) have "ws \<noteq> c" by auto
  with Some show ?thesis by (simp add: broadcastToUser_def received_ws_send)
qed

text \<open>
  Claim C9, as the code has it. From a start with no socket and no registration, after
  any sequence of events, a socket that has not authenticated has been sent nothing but
  answers \<open>auth_error\<close> and \<open>new_message\<close> events of the broadcast to all clients, and no
  targeted push reaches it.
\<close>

theorem unauthenticated_receive_no_targeted_push:
  assumes "sockets s0 = Map.empty" and "wsClients s0 = Map.empty"
  shows "\<forall>ws. \<not> authenticated ws (run evs s0) \<longrightarrow>
           list_all unsolicited (received ws (run evs s0)) \<and>
           (\<forall>uid d. received ws (broadcastToUser uid d (run evs s0)) = received ws (run evs s0))"
proof (intro allI impI conjI)
  have inv: "push_invariant (run evs s0)"
    using assms by (intro push_invariant_run push_invariant_start)
  fix ws
  assume un: "\<not> authenticated ws (run evs s0)"
  show "list_all unsolicited (received ws (run evs s0))"
    using inv un by (simp add: push_invariant_def unauthenticated_unpushed_def)
  show "received ws (broadcastToUser uid d (run evs s0)) = received ws (run evs s0)" for uid d
    using inv un by (rule received_broadcastToUser)
qed

lemma example_server_started:
  "sockets example_server = Map.empty" "wsClients example_server = Map.empty"
  by (simp_all add: example_defs)

lemma example_channels_unauthenticated: "\<not> authenticated 1 example_channels"
  by (simp add: authenticated_def example_channels_def)

text \<open>
  On the example with two connections: the targeted \<open>deposit_update\<close> for alice is sent
  on socket 0 and not on the unauthenticated socket 1.
\<close>

theorem unauthenticated_receive_no_targeted_push_witness:
  "sockets example_server = Map.empty \<and> wsClients example_server = Map.empty \<and>
   \<not> authenticated 1 example_channels \<and>
   list_all unsolicited (received 1 example_channels) \<and>
   received 1 (broadcastToUser ''alice'' (deposit_update 1 ''approved'') example_channels) =
     received 1 example_channels \<and>
   received 0 (broadcastToUser ''alice'' (deposit_update 1 ''approved'') example_channels) =
     [auth_success, deposit_update 1 ''approved'']"
proof -
  note inst = unauthenticated_receive_no_targeted_push
    [OF example_server_started,
     of "[Connection, Connection, GET_ws_token ''alice'' ''t1'' 0,
          Message 0 (Parsed (Some ''auth'') (StrToken ''t1'')) 5,
          GET_ws_token ''alice'' ''t2'' 10]",
     unfolded example_channels_reached]
  have pushed: "received 0 (broadcastToUser ''alice'' (deposit_update 1 ''approved'') example_channels) =
     [auth_success, deposit_update 1 ''approved'']"
    by (simp add: broadcastToUser_def is_open_def ws_send_def received_def example_channels_def)
  show ?thesis
    using inst example_channels_unauthenticated example_server_started pushed by simp
qed

text \<open>
  Claim C9 as stated fails on the message-send path: alice, who is no administrator,
  posts a message to the thread of her booking, and the unauthenticated socket 1 is sent
  the \<open>new_message\<close> event with the message.
\<close>

theorem broadcast_reaches_unauthenticated_counterexample:
  "\<not> authenticated 1 example_channels \<and>
   received 1 example_channels = [] \<and>
   isAdmin ''alice'' example_channels = False \<and>
   \<not> authenticated 1 (snd (post_messages ''alice'' example_message example_channels)) \<and>
   received 1 (snd (post_messages ''alice'' example_message example_channels)) =
     [new_message ''booking-1''
        (1, \<lparr> m_threadId = ''booking-1'', m_threadType = ''booking'', m_referenceId = 1,
               m_sender = ''user'', m_senderUserId = Some ''alice'', m_text = ''hello'' \<rparr>) True]"
  by (simp add: post_messages_def createMessage_def varchar_def Let_def getUser_def
      getBooking_def messageTypeEnum_def is_open_def ws_send_def received_def authenticated_def
      isAdmin_def example_channels_def example_message_def example_defs)

end
